theory Spec2Isabelle
  imports Complex_Main "HOL-Library.Multiset" "HOL-Library.Product_Lexorder"
begin

section \<open>Errors\<close>

datatype py_error =
  IndexError | ZeroDivisionError | ValueError | OverflowError | NameError string

section \<open>Double-precision floats\<close>

text \<open>
  The analytics functions of \<^verbatim>\<open>dpos.py\<close> compute with IEEE 754 binary64 numbers: Python
  floats and numpy \<^verbatim>\<open>float64\<close> scalars and arrays. A double is a sign and a magnitude,
  an infinity with its sign, or NaN; \<open>Fin True 0\<close> is the negative zero. The magnitude of
  a finite double is a multiple of \<open>2 ^ (e - 52)\<close> below \<open>2 ^ (e + 1)\<close> for an exponent
  \<open>e\<close> from \<open>-1022\<close> to \<open>1023\<close>.
\<close>

datatype double = Fin bool real | Inf bool | NaN

definition pow2 :: "int \<Rightarrow> real" where
  "pow2 e = (if 0 \<le> e then 2 ^ nat e else 1 / 2 ^ nat (- e))"

text \<open>
  The binary exponent of a positive magnitude, kept within the range of the format:
  halve a magnitude from 2 on, double one below 1.
\<close>

function expo_up :: "int \<Rightarrow> real \<Rightarrow> int" where
  "expo_up e x = (if 2 \<le> x \<and> e < 1023 then expo_up (e + 1) (x / 2) else e)"
  by pat_completeness auto
termination
  by (relation "measure (\<lambda>(e, x). nat (1023 - e))") auto

function expo_down :: "int \<Rightarrow> real \<Rightarrow> int" where
  "expo_down e x = (if x < 1 \<and> - 1022 < e then expo_down (e - 1) (2 * x) else e)"
  by pat_completeness auto
termination
  by (relation "measure (\<lambda>(e, x). nat (e + 1022))") auto

definition exponent :: "real \<Rightarrow> int" where
  "exponent m = (if 1 \<le> m then expo_up 0 m else expo_down 0 m)"

definition round_half_even :: "real \<Rightarrow> int" where
  "round_half_even x =
     (let f = \<lfloor>x\<rfloor>; d = x - of_int f
      in if d < 1 / 2 then f else if 1 / 2 < d then f + 1
         else if even f then f else f + 1)"

text \<open>
  Rounding a magnitude to the nearest double, ties to the even significand; a result
  of \<open>2 ^ 1024\<close> or more is an overflow to infinity.
\<close>

definition round_mag :: "real \<Rightarrow> real" where
  "round_mag m =
     (if m = 0 then 0
      else let q = pow2 (exponent m - 52) in of_int (round_half_even (m / q)) * q)"

definition fl_mag :: "bool \<Rightarrow> real \<Rightarrow> double" where
  "fl_mag s m = (let r = round_mag m in if 2 ^ 1024 \<le> r then Inf s else Fin s r)"

text \<open>The double that a decimal literal of the source denotes.\<close>

definition fl :: "real \<Rightarrow> double" where
  "fl x = fl_mag (x < 0) \<bar>x\<bar>"

text \<open>A value is a double when its magnitude is one that rounding leaves alone.\<close>

fun is_double :: "double \<Rightarrow> bool" where
  "is_double (Fin s m) = (0 \<le> m \<and> m < 2 ^ 1024 \<and> round_mag m = m)"
| "is_double (Inf s) = True"
| "is_double NaN = True"

fun val :: "double \<Rightarrow> real" where
  "val (Fin s m) = (if s then - m else m)"
| "val (Inf s) = 0"
| "val NaN = 0"

fun fneg :: "double \<Rightarrow> double" where
  "fneg (Fin s m) = Fin (\<not> s) m"
| "fneg (Inf s) = Inf (\<not> s)"
| "fneg NaN = NaN"

fun fabs :: "double \<Rightarrow> double" where
  "fabs (Fin s m) = Fin False m"
| "fabs (Inf s) = Inf False"
| "fabs NaN = NaN"

text \<open>
  The arithmetic of the format: the exact result, rounded. An exact zero sum is negative
  only when both operands are.
\<close>

fun fadd :: "double \<Rightarrow> double \<Rightarrow> double" where
  "fadd (Fin s m) (Fin t n) =
     (let v = val (Fin s m) + val (Fin t n)
      in if v = 0 then Fin (s \<and> t) 0 else fl_mag (v < 0) \<bar>v\<bar>)"
| "fadd (Inf s) (Inf t) = (if s = t then Inf s else NaN)"
| "fadd (Inf s) (Fin _ _) = Inf s"
| "fadd (Fin _ _) (Inf t) = Inf t"
| "fadd NaN _ = NaN"
| "fadd _ NaN = NaN"

definition fsub :: "double \<Rightarrow> double \<Rightarrow> double" where
  "fsub x y = fadd x (fneg y)"

fun fmul :: "double \<Rightarrow> double \<Rightarrow> double" where
  "fmul (Fin s m) (Fin t n) = fl_mag (s \<noteq> t) (m * n)"
| "fmul (Inf s) (Inf t) = Inf (s \<noteq> t)"
| "fmul (Inf s) (Fin t n) = (if n = 0 then NaN else Inf (s \<noteq> t))"
| "fmul (Fin s m) (Inf t) = (if m = 0 then NaN else Inf (s \<noteq> t))"
| "fmul NaN _ = NaN"
| "fmul _ NaN = NaN"

text \<open>
  Division as the hardware does it, without an exception: a finite non-zero value over
  zero is an infinity, zero over zero is NaN.
\<close>

fun fdiv :: "double \<Rightarrow> double \<Rightarrow> double" where
  "fdiv (Fin s m) (Fin t n) =
     (if n = 0 then (if m = 0 then NaN else Inf (s \<noteq> t)) else fl_mag (s \<noteq> t) (m / n))"
| "fdiv (Inf s) (Inf t) = NaN"
| "fdiv (Inf s) (Fin t _) = Inf (s \<noteq> t)"
| "fdiv (Fin s _) (Inf t) = Fin (s \<noteq> t) 0"
| "fdiv NaN _ = NaN"
| "fdiv _ NaN = NaN"

text \<open>
  The order numpy sorts by: minus infinity, the finite values by value (the two zeros
  equal), plus infinity, and NaN last. A comparison with NaN is false.
\<close>

fun np_key :: "double \<Rightarrow> nat \<times> real" where
  "np_key (Inf True) = (0, 0)"
| "np_key (Fin s m) = (1, val (Fin s m))"
| "np_key (Inf False) = (2, 0)"
| "np_key NaN = (3, 0)"

definition fgt :: "double \<Rightarrow> double \<Rightarrow> bool" where
  "fgt x y = (x \<noteq> NaN \<and> y \<noteq> NaN \<and> np_key y < np_key x)"

definition fle :: "double \<Rightarrow> double \<Rightarrow> bool" where
  "fle x y = (x \<noteq> NaN \<and> y \<noteq> NaN \<and> np_key x \<le> np_key y)"

fun is_zero :: "double \<Rightarrow> bool" where
  "is_zero (Fin s m) = (m = 0)"
| "is_zero _ = False"

fun is_finite :: "double \<Rightarrow> bool" where
  "is_finite (Fin s m) = True"
| "is_finite _ = False"

fun is_inf :: "double \<Rightarrow> bool" where
  "is_inf (Inf s) = True"
| "is_inf _ = False"

fun signbit :: "double \<Rightarrow> bool" where
  "signbit (Fin s m) = s"
| "signbit (Inf s) = s"
| "signbit NaN = False"

text \<open>
  The length of an array as a double. Lengths are far below \<open>2 ^ 53\<close>, where the
  conversion of an integer is exact.
\<close>

definition of_count :: "nat \<Rightarrow> double" where
  "of_count n = Fin False (real n)"

text \<open>
  Python's \<^verbatim>\<open>int(x)\<close> on a float truncates towards zero; it raises ValueError on NaN and
  OverflowError on an infinity.
\<close>

fun py_int :: "double \<Rightarrow> py_error + int" where
  "py_int (Fin s m) = Inr (if s then - \<lfloor>m\<rfloor> else \<lfloor>m\<rfloor>)"
| "py_int (Inf s) = Inl OverflowError"
| "py_int NaN = Inl ValueError"

section \<open>Python floats and numpy scalars\<close>

text \<open>
  A scalar argument is a Python float or a numpy \<^verbatim>\<open>float64\<close>. Both compute the same
  doubles; they differ in what raises. An operation with a numpy operand is numpy's and
  gives a numpy scalar: a division by zero or an overflow there is a warning and an
  infinity or NaN, never an exception (numpy's default error state).
\<close>

datatype scalar = PyFloat double | NpFloat double

fun dbl_of :: "scalar \<Rightarrow> double" where
  "dbl_of (PyFloat d) = d"
| "dbl_of (NpFloat d) = d"

fun is_np :: "scalar \<Rightarrow> bool" where
  "is_np (PyFloat d) = False"
| "is_np (NpFloat d) = True"

definition mk_scalar :: "bool \<Rightarrow> double \<Rightarrow> scalar" where
  "mk_scalar np d = (if np then NpFloat d else PyFloat d)"

definition scalar_add :: "scalar \<Rightarrow> scalar \<Rightarrow> scalar" where
  "scalar_add a b = mk_scalar (is_np a \<or> is_np b) (fadd (dbl_of a) (dbl_of b))"

definition scalar_sub :: "scalar \<Rightarrow> scalar \<Rightarrow> scalar" where
  "scalar_sub a b = mk_scalar (is_np a \<or> is_np b) (fsub (dbl_of a) (dbl_of b))"

text \<open>
  \<^verbatim>\<open>a / b\<close>: two Python floats raise ZeroDivisionError on a zero divisor of either sign
  (an overflowing quotient is an infinity, not an error).
\<close>

definition scalar_truediv :: "scalar \<Rightarrow> scalar \<Rightarrow> py_error + scalar" where
  "scalar_truediv a b =
     (if is_np a \<or> is_np b then Inr (NpFloat (fdiv (dbl_of a) (dbl_of b)))
      else if is_zero (dbl_of b) then Inl ZeroDivisionError
      else Inr (PyFloat (fdiv (dbl_of a) (dbl_of b))))"

text \<open>
  \<^verbatim>\<open>x ** k\<close> for a positive integer \<open>k\<close>. The value is what the platform's \<^verbatim>\<open>pow\<close>
  returns, an argument \<open>pw\<close> of the model. A Python float raises OverflowError when the
  power of a finite base is infinite; a numpy scalar returns the infinity.
\<close>

definition scalar_pow :: "(double \<Rightarrow> nat \<Rightarrow> double) \<Rightarrow> scalar \<Rightarrow> nat \<Rightarrow> py_error + scalar" where
  "scalar_pow pw x k =
     (if is_np x then Inr (NpFloat (pw (dbl_of x) k))
      else if is_finite (dbl_of x) \<and> is_inf (pw (dbl_of x) k) then Inl OverflowError
      else Inr (PyFloat (pw (dbl_of x) k)))"

text \<open>The power rounded once from the exact one: \<^verbatim>\<open>pow\<close> wherever that is a double.\<close>

fun pow_rounded :: "double \<Rightarrow> nat \<Rightarrow> double" where
  "pow_rounded (Fin s m) k = fl_mag (s \<and> odd k) (m ^ k)"
| "pow_rounded (Inf s) k = Inf (s \<and> odd k)"
| "pow_rounded NaN k = NaN"

section \<open>numpy arrays\<close>

text \<open>A one-dimensional \<^verbatim>\<open>float64\<close> array is a list of doubles.\<close>

text \<open>
  A negative index or slice bound counts from the end of the array.
\<close>

definition py_norm_index :: "nat \<Rightarrow> int \<Rightarrow> int" where
  "py_norm_index n i = (if i < 0 then int n + i else i)"

text \<open>Indexing \<^verbatim>\<open>a[i]\<close>: an index outside the array raises IndexError.\<close>

definition np_getitem :: "'a list \<Rightarrow> int \<Rightarrow> py_error + 'a" where
  "np_getitem xs i =
     (let n = length xs; j = py_norm_index n i
      in if 0 \<le> j \<and> j < int n then Inr (xs ! nat j) else Inl IndexError)"

text \<open>
  The slice \<^verbatim>\<open>a[:i]\<close>: the bound is clamped to the array, so a slice never raises.
\<close>

definition np_slice_to :: "'a list \<Rightarrow> int \<Rightarrow> 'a list" where
  "np_slice_to xs i =
     (let n = length xs; j = py_norm_index n i
      in take (nat (max 0 (min (int n) j))) xs)"

text \<open>\<^verbatim>\<open>np.sort\<close>: ascending, NaN last; elements that compare equal keep their order.\<close>

definition np_sort :: "double list \<Rightarrow> double list" where
  "np_sort xs = sort_key np_key xs"

text \<open>
  \<^verbatim>\<open>np.sum\<close> adds the elements of a \<^verbatim>\<open>float64\<close> array pairwise, each addition rounded:
  fewer than eight elements in sequence; up to 128 in eight interleaved partial sums,
  combined as a tree, then the remaining elements in sequence; a longer array in two
  parts, the first a multiple of eight long. The sum of no elements is \<open>0.0\<close>.
\<close>

primrec seq_add :: "double \<Rightarrow> double list \<Rightarrow> double" where
  "seq_add r [] = r"
| "seq_add r (x # xs) = seq_add (fadd r x) xs"

function lanes :: "double list \<Rightarrow> double list \<Rightarrow> double list \<times> double list" where
  "lanes r xs =
     (if 8 \<le> length xs then lanes (map2 fadd r (take 8 xs)) (drop 8 xs) else (r, xs))"
  by pat_completeness auto
termination
  by (relation "measure (\<lambda>(r, xs). length xs)") auto

definition combine :: "double list \<Rightarrow> double" where
  "combine r =
     fadd (fadd (fadd (r ! 0) (r ! 1)) (fadd (r ! 2) (r ! 3)))
          (fadd (fadd (r ! 4) (r ! 5)) (fadd (r ! 6) (r ! 7)))"

function pairwise_sum :: "double list \<Rightarrow> double" where
  "pairwise_sum a =
     (if length a < 8 then seq_add (Fin False 0) a
      else if length a \<le> 128
      then seq_add (combine (fst (lanes (take 8 a) (drop 8 a))))
                   (snd (lanes (take 8 a) (drop 8 a)))
      else fadd (pairwise_sum (take (length a div 2 - length a div 2 mod 8) a))
                (pairwise_sum (drop (length a div 2 - length a div 2 mod 8) a)))"
  by pat_completeness auto
termination
  by (relation "measure length") auto

definition np_sum :: "double list \<Rightarrow> double" where
  "np_sum a = fadd (Fin False 0) (pairwise_sum a)"

text \<open>
  \<^verbatim>\<open>np.mean\<close>: the sum over the number of elements; on an empty array this is \<open>0.0 / 0\<close>,
  NaN (with a warning, no exception).
\<close>

definition np_mean :: "double list \<Rightarrow> double" where
  "np_mean a = fdiv (np_sum a) (of_count (length a))"

text \<open>
  An elementwise binary operation on two one-dimensional arrays: arrays of equal length
  are combined position by position, an array of length one is broadcast along the
  other, and any other pair of lengths raises ValueError.
\<close>

definition np_broadcast2 ::
  "(double \<Rightarrow> double \<Rightarrow> 'a) \<Rightarrow> double list \<Rightarrow> double list \<Rightarrow> py_error + 'a list" where
  "np_broadcast2 f xs ys =
     (if length xs = length ys then Inr (map2 f xs ys)
      else if length xs = 1 then Inr (map (f (hd xs)) ys)
      else if length ys = 1 then Inr (map (\<lambda>x. f x (hd ys)) xs)
      else Inl ValueError)"

definition np_any :: "bool list \<Rightarrow> bool" where
  "np_any bs = list_ex (\<lambda>b. b) bs"

text \<open>Running a list of computations in order: the first error ends it.\<close>

primrec collect :: "(py_error + 'a) list \<Rightarrow> py_error + 'a list" where
  "collect [] = Inr []"
| "collect (r # rs) =
     (case r of
        Inl e \<Rightarrow> Inl e
      | Inr x \<Rightarrow> (case collect rs of Inl e \<Rightarrow> Inl e | Inr xs \<Rightarrow> Inr (x # xs)))"

section \<open>Sharpe ratio\<close>

definition default_risk_free_rate :: scalar where
  "default_risk_free_rate = PyFloat (fl (1 / 100))"

definition calculate_sharpe_ratio :: "scalar \<Rightarrow> scalar \<Rightarrow> scalar \<Rightarrow> py_error + scalar" where
  "calculate_sharpe_ratio portfolio_return portfolio_stddev risk_free_rate =
     scalar_truediv (scalar_sub portfolio_return risk_free_rate) portfolio_stddev"

section \<open>Value at Risk and Conditional Value at Risk\<close>

definition default_confidence_level :: double where
  "default_confidence_level = fl (95 / 100)"

definition calculate_var_cvar :: "double list \<Rightarrow> double \<Rightarrow> py_error + (double \<times> double)" where
  "calculate_var_cvar returns confidence_level =
     (let sorted_returns = np_sort returns
      in case py_int (fmul (fsub (Fin False 1) confidence_level)
                           (of_count (length sorted_returns))) of
           Inl e \<Rightarrow> Inl e
         | Inr index \<Rightarrow>
             (case np_getitem sorted_returns index of
                Inl e \<Rightarrow> Inl e
              | Inr var \<Rightarrow> Inr (var, np_mean (np_slice_to sorted_returns index))))"

section \<open>Rebalancing\<close>

definition default_tolerance :: double where
  "default_tolerance = fl (5 / 100)"

definition rebalance_portfolio ::
  "double list \<Rightarrow> double list \<Rightarrow> double \<Rightarrow> py_error + double list" where
  "rebalance_portfolio weights target_weights tolerance =
     (case np_broadcast2 fsub weights target_weights of
        Inl e \<Rightarrow> Inl e
      | Inr d \<Rightarrow>
          (let deviation = map fabs d
           in if np_any (map (\<lambda>x. fgt x tolerance) deviation)
              then Inr target_weights
              else Inr weights))"

section \<open>Transaction-cost adjustment\<close>



section \<open>Discounted cash flow by Monte Carlo simulation\<close>

text \<open>
  \<^verbatim>\<open>np.random.normal(loc, scale, (rows, cols))\<close> with \<open>loc\<close> and \<open>scale\<close> of length
  \<open>cols\<close>: a scale with the sign bit set raises ValueError (NaN passes); otherwise the
  result is a \<open>rows\<close> by \<open>cols\<close> array of draws. The draws are an argument of the model,
  \<open>sample i t\<close> the entry of row \<open>i\<close> and column \<open>t\<close>, so that the function is
  deterministic in them.
\<close>

definition np_random_normal ::
  "(nat \<Rightarrow> nat \<Rightarrow> double) \<Rightarrow> double list \<Rightarrow> double list \<Rightarrow> nat \<Rightarrow> nat
     \<Rightarrow> py_error + double list list" where
  "np_random_normal sample loc scale rows cols =
     (if list_ex signbit scale then Inl ValueError
      else Inr (map (\<lambda>i. map (\<lambda>t. sample i t) [0..<cols]) [0..<rows]))"

text \<open>The draws that all hit their mean: every simulated cash flow is the projected one.\<close>

definition at_mean :: "double list \<Rightarrow> nat \<Rightarrow> nat \<Rightarrow> double" where
  "at_mean loc i t = loc ! t"

definition default_num_simulations :: nat where
  "default_num_simulations = 1000"

text \<open>
  The discounted value of one simulated row: the sum over the periods \<open>t\<close> of
  \<^verbatim>\<open>row[t] / (1 + discount_rate) ** (t + 1)\<close>. The entries of the row are numpy scalars,
  so the division is numpy's.
\<close>

definition discounted_value ::
  "(double \<Rightarrow> nat \<Rightarrow> double) \<Rightarrow> double list \<Rightarrow> scalar \<Rightarrow> nat \<Rightarrow> py_error + double" where
  "discounted_value pw row discount_rate n =
     (case collect (map (\<lambda>t.
              case scalar_pow pw (scalar_add (PyFloat (Fin False 1)) discount_rate) (t + 1) of
                Inl e \<Rightarrow> Inl e
              | Inr p \<Rightarrow> Inr (fdiv (row ! t) (dbl_of p)))
            [0..<n]) of
        Inl e \<Rightarrow> Inl e
      | Inr terms \<Rightarrow> Inr (np_sum terms))"

definition calculate_dcf ::
  "(double \<Rightarrow> nat \<Rightarrow> double) \<Rightarrow> (nat \<Rightarrow> nat \<Rightarrow> double) \<Rightarrow> double list \<Rightarrow> scalar \<Rightarrow> nat
     \<Rightarrow> py_error + double" where
  "calculate_dcf pw sample cash_flows discount_rate num_simulations =
     (let n = length cash_flows
      in case np_random_normal sample cash_flows (map (\<lambda>c. fmul (fl (5 / 100)) c) cash_flows)
                num_simulations n of
           Inl e \<Rightarrow> Inl e
         | Inr simulated_cash_flows \<Rightarrow>
             (case collect (map (\<lambda>i. discounted_value pw (simulated_cash_flows ! i)
                                         discount_rate n)
                                [0..<num_simulations]) of
                Inl e \<Rightarrow> Inl e
              | Inr discounted_values \<Rightarrow> Inr (np_mean discounted_values)))"

section \<open>The top-level script\<close>

text \<open>
  The module is a flat sequence of top-level statements, run in order. For the order of
  definition and use only the global names matter: each statement is kept with its line,
  the global names it reads when it is executed (in evaluation order) and the names it
  binds. A \<^verbatim>\<open>def\<close> reads nothing when executed (its body runs at call time, its
  defaults here are literals). A statement that reads an unbound name raises NameError
  and ends the run; imports are taken to succeed, and a statement whose names are all
  bound is taken to complete.
\<close>

datatype stmt =
    Import nat string
  | Def nat string
  | Assign nat "string list" "string list"
  | Print nat "string list"

record run_state =
  globals :: "string list"
  executed :: "nat list"
  stdout :: "nat list"

definition builtins :: "string list" where
  "builtins = [''print'', ''len'', ''range'', ''int'', ''tuple'', ''min'', ''max'']"

definition initial_state :: run_state where
  "initial_state = \<lparr>globals = builtins, executed = [], stdout = []\<rparr>"

fun line_of :: "stmt \<Rightarrow> nat" where
  "line_of (Import l _) = l"
| "line_of (Def l _) = l"
| "line_of (Assign l _ _) = l"
| "line_of (Print l _) = l"

fun reads_of :: "stmt \<Rightarrow> string list" where
  "reads_of (Import _ _) = []"
| "reads_of (Def _ _) = []"
| "reads_of (Assign _ _ rs) = rs"
| "reads_of (Print _ rs) = ''print'' # rs"

fun binds_of :: "stmt \<Rightarrow> string list" where
  "binds_of (Import _ x) = [x]"
| "binds_of (Def _ f) = [f]"
| "binds_of (Assign _ xs _) = xs"
| "binds_of (Print _ _) = []"

fun is_print :: "stmt \<Rightarrow> bool" where
  "is_print (Print _ _) = True"
| "is_print _ = False"

definition exec_stmt :: "stmt \<Rightarrow> run_state \<Rightarrow> py_error + run_state" where
  "exec_stmt st s =
     (case filter (\<lambda>x. x \<notin> set (globals s)) (reads_of st) of
        x # _ \<Rightarrow> Inl (NameError x)
      | [] \<Rightarrow>
          Inr \<lparr>globals = binds_of st @ globals s,
               executed = executed s @ [line_of st],
               stdout = (if is_print st then stdout s @ [line_of st] else stdout s)\<rparr>)"

text \<open>
  Running the statements: the state reached, and the error with the line that raised it
  when the run did not reach the end.
\<close>

fun run_script :: "stmt list \<Rightarrow> run_state \<Rightarrow> run_state \<times> (py_error \<times> nat) option" where
  "run_script [] s = (s, None)"
| "run_script (st # sts) s =
     (case exec_stmt st s of
        Inl e \<Rightarrow> (s, Some (e, line_of st))
      | Inr s' \<Rightarrow> run_script sts s')"

definition dpos_script :: "stmt list" where
  "dpos_script =
    [Import 1 ''np'',
     Import 2 ''pd'',
     Import 3 ''minimize'',
     Import 4 ''plt'',
     Def 8 ''calculate_dcf'',
     Def 23 ''calculate_var_cvar'',
     Def 34 ''calculate_sharpe_ratio'',
     Def 41 ''fama_french_three_factor_model'',
     Def 49 ''rebalance_portfolio'',
     Def 60 ''portfolio_performance'',
     Def 65 ''minimize_risk'',
     Def 68 ''efficient_frontier'',
     Import 78 ''yf'',
     Def 80 ''fetch_market_data'',
     Assign 88 [''tickers''] [],
     Assign 89 [''start_date''] [],
     Assign 90 [''end_date''] [],
     Assign 92 [''price_df''] [''pd'', ''price_data''],
     Assign 93 [''returns''] [''price_df''],
     Assign 96 [''mean_returns''] [''returns''],
     Assign 97 [''cov_matrix''] [''returns''],
     Assign 100 [''optimal_weights''] [''efficient_frontier'', ''mean_returns'', ''cov_matrix''],
     Print 101 [''optimal_weights''],
     Assign 103 [''price_data''] [''tickers'', ''fetch_market_data'', ''start_date'', ''end_date''],
     Def 106 ''adjust_portfolio_with_costs'',
     Def 114 ''plot_efficient_frontier'',
     Assign 124 [''optimal_weights''] [''efficient_frontier'', ''mean_returns'', ''cov_matrix''],
     Print 125 [''optimal_weights''],
     Assign 128 [''adjusted_weights''] [''adjust_portfolio_with_costs'', ''optimal_weights''],
     Print 129 [''adjusted_weights''],
     Assign 132 [''portfolio_returns''] [''np'', ''returns'', ''optimal_weights''],
     Assign 133 [''var'', ''cvar''] [''calculate_var_cvar'', ''portfolio_returns''],
     Print 134 [''var'', ''cvar'']]"

section \<open>Evaluation and auxiliary facts\<close>

declare expo_up.simps [simp del] expo_down.simps [simp del]
  lanes.simps [simp del] pairwise_sum.simps [simp del]

lemmas fl_eval =
  fl_def fl_mag_def round_mag_def exponent_def expo_up.simps expo_down.simps
  round_half_even_def pow2_def Let_def fsub_def

lemmas np_eval =
  np_sum_def np_mean_def of_count_def pairwise_sum.simps lanes.simps combine_def
  np_sort_def np_getitem_def np_slice_to_def py_norm_index_def

lemma length_np_sort [simp]: "length (np_sort xs) = length xs"
  by (simp add: np_sort_def)

lemma set_np_sort [simp]: "set (np_sort xs) = set xs"
  by (simp add: np_sort_def)

lemma mset_np_sort [simp]: "mset (np_sort xs) = mset xs"
  by (simp add: np_sort_def)

lemma sorted_np_sort: "sorted (map np_key (np_sort xs))"
  by (simp add: np_sort_def)

lemma np_mean_Nil [simp]: "np_mean [] = NaN"
  by (simp add: np_mean_def np_sum_def of_count_def pairwise_sum.simps)

lemma np_getitem_norm:
  "np_getitem xs i =
     (if 0 \<le> py_norm_index (length xs) i \<and> py_norm_index (length xs) i < int (length xs)
      then Inr (xs ! nat (py_norm_index (length xs) i)) else Inl IndexError)"
  by (simp add: np_getitem_def Let_def)

lemma np_slice_to_norm:
  assumes "0 \<le> py_norm_index (length xs) i" and "py_norm_index (length xs) i < int (length xs)"
  shows "np_slice_to xs i = take (nat (py_norm_index (length xs) i)) xs"
  using assms by (simp add: np_slice_to_def Let_def min_def max_def)

text \<open>What \<open>calculate_var_cvar\<close> returns once the index has been computed.\<close>

lemma calculate_var_cvar_index:
  assumes "py_int (fmul (fsub (Fin False 1) c) (of_count (length rs))) = Inr i"
  shows "calculate_var_cvar rs c =
     (if 0 \<le> py_norm_index (length rs) i \<and> py_norm_index (length rs) i < int (length rs)
      then Inr (np_sort rs ! nat (py_norm_index (length rs) i),
                np_mean (take (nat (py_norm_index (length rs) i)) (np_sort rs)))
      else Inl IndexError)"
proof (cases "0 \<le> py_norm_index (length rs) i \<and> py_norm_index (length rs) i < int (length rs)")
  case False
  then have "np_getitem (np_sort rs) i = Inl IndexError"
    by (simp add: np_getitem_norm)
  with False show ?thesis
    unfolding calculate_var_cvar_def Let_def length_np_sort assms by simp
next
  case True
  then have "np_getitem (np_sort rs) i = Inr (np_sort rs ! nat (py_norm_index (length rs) i))"
    by (simp add: np_getitem_norm)
  moreover have "np_slice_to (np_sort rs) i = take (nat (py_norm_index (length rs) i)) (np_sort rs)"
    using True np_slice_to_norm [of "np_sort rs" i] by simp
  ultimately show ?thesis
    using True unfolding calculate_var_cvar_def Let_def length_np_sort assms by simp
qed

lemma calculate_var_cvar_error:
  assumes "py_int (fmul (fsub (Fin False 1) c) (of_count (length rs))) = Inl e"
  shows "calculate_var_cvar rs c = Inl e"
  unfolding calculate_var_cvar_def Let_def length_np_sort assms by simp

lemma np_sort_take_le:
  assumes "j < length rs" and "x \<in> set (take j (np_sort rs))"
  shows "np_key x \<le> np_key (np_sort rs ! j)"
proof -
  from assms obtain k where k: "k < j" "x = np_sort rs ! k"
    by (auto simp: in_set_conv_nth)
  have "map np_key (np_sort rs) ! k \<le> map np_key (np_sort rs) ! j"
    using k(1) assms(1) by (intro sorted_nth_mono [OF sorted_np_sort]) simp_all
  with k assms(1) show ?thesis by simp
qed

lemma not_fgt_iff: "\<not> fgt x y \<longleftrightarrow> fle x y \<or> x = NaN \<or> y = NaN"
  by (auto simp: fgt_def fle_def not_less)

lemma fsub_pos_zero:
  assumes "is_double (Fin s m)"
  shows "fsub (Fin s m) (Fin False 0) = Fin s m"
proof (cases "m = 0")
  case True
  then show ?thesis by (simp add: fsub_def)
next
  case False
  with assms have m: "0 < m" "round_mag m = m" "\<not> 2 ^ 1024 \<le> m"
    by simp_all
  then have "fl_mag s m = Fin s m"
    by (simp add: fl_mag_def)
  with m(1) show ?thesis
    by (cases s) (simp_all add: fsub_def)
qed

section \<open>The script stops at line 92\<close>

text \<open>
  Claim C3. Run from the top, the script raises NameError for \<open>price_data\<close> at line 92:
  the only statement that binds the name is at line 103. Nothing has been printed by
  then, and the statements executed are the imports, the function definitions and the
  three constants above line 92, so no optimisation, VaR/CVaR output or plot is reached.
\<close>

theorem script_name_error:
  "snd (run_script dpos_script initial_state) = Some (NameError ''price_data'', 92) \<and>
   stdout (fst (run_script dpos_script initial_state)) = [] \<and>
   executed (fst (run_script dpos_script initial_state)) =
     [1, 2, 3, 4, 8, 23, 34, 41, 49, 60, 65, 68, 78, 80, 88, 89, 90] \<and>
   map line_of (filter (\<lambda>st. ''price_data'' \<in> set (binds_of st)) dpos_script) = [103]"
  by (simp add: dpos_script_def initial_state_def builtins_def exec_stmt_def)

section \<open>Sharpe ratio: value, failure and scaling\<close>

text \<open>
  Claim C8 as stated fails: with a numpy scalar among the operands a zero standard
  deviation raises nothing. The quotient is then an infinity, or NaN when the excess
  return is zero as well.
\<close>

theorem sharpe_zero_stddev_counterexample:
  "calculate_sharpe_ratio (PyFloat (fl (1 / 10))) (NpFloat (Fin False 0)) default_risk_free_rate
     = Inr (NpFloat (Inf False)) \<and>
   calculate_sharpe_ratio (NpFloat (fl (1 / 100))) (PyFloat (Fin False 0)) default_risk_free_rate
     = Inr (NpFloat NaN)"
  by (simp add: calculate_sharpe_ratio_def scalar_truediv_def scalar_sub_def mk_scalar_def
      default_risk_free_rate_def fl_eval)

text \<open>
  Claim C8, amended. For every standard deviation other than zero
  \<open>calculate_sharpe_ratio\<close> returns the double quotient of the double difference
  \<open>portfolio_return - risk_free_rate\<close> by \<open>portfolio_stddev\<close>. It fails exactly when the
  standard deviation is zero and all three arguments are Python floats, and then with
  ZeroDivisionError; with a numpy scalar among them a zero standard deviation gives an
  infinity or NaN instead.
\<close>

theorem sharpe_value_and_failure:
  "(\<not> is_zero (dbl_of portfolio_stddev) \<longrightarrow>
      calculate_sharpe_ratio portfolio_return portfolio_stddev risk_free_rate =
        Inr (mk_scalar (is_np portfolio_return \<or> is_np risk_free_rate \<or> is_np portfolio_stddev)
               (fdiv (fsub (dbl_of portfolio_return) (dbl_of risk_free_rate))
                     (dbl_of portfolio_stddev)))) \<and>
   (calculate_sharpe_ratio portfolio_return portfolio_stddev risk_free_rate = Inl ZeroDivisionError
      \<longleftrightarrow> is_zero (dbl_of portfolio_stddev) \<and>
          \<not> (is_np portfolio_return \<or> is_np risk_free_rate \<or> is_np portfolio_stddev)) \<and>
   (isl (calculate_sharpe_ratio portfolio_return portfolio_stddev risk_free_rate)
      \<longleftrightarrow> is_zero (dbl_of portfolio_stddev) \<and>
          \<not> (is_np portfolio_return \<or> is_np risk_free_rate \<or> is_np portfolio_stddev)) \<and>
   (is_zero (dbl_of portfolio_stddev) \<and>
    (is_np portfolio_return \<or> is_np risk_free_rate \<or> is_np portfolio_stddev) \<longrightarrow>
      calculate_sharpe_ratio portfolio_return portfolio_stddev risk_free_rate =
        Inr (NpFloat (fdiv (fsub (dbl_of portfolio_return) (dbl_of risk_free_rate))
                           (dbl_of portfolio_stddev))) \<and>
      \<not> is_finite (fdiv (fsub (dbl_of portfolio_return) (dbl_of risk_free_rate))
                         (dbl_of portfolio_stddev)))"
proof -
  have nf: "\<not> is_finite (fdiv x y)" if "is_zero y" for x y
    using that by (cases x; cases y) simp_all
  show ?thesis
    by (cases portfolio_return; cases risk_free_rate; cases portfolio_stddev)
       (simp_all add: calculate_sharpe_ratio_def scalar_truediv_def scalar_sub_def
          mk_scalar_def nf)
qed

theorem sharpe_value_and_failure_witness:
  "calculate_sharpe_ratio (PyFloat (Fin False (3 / 4))) (PyFloat (Fin False (1 / 2)))
       (PyFloat (Fin False (1 / 4))) = Inr (PyFloat (Fin False 1)) \<and>
   calculate_sharpe_ratio (PyFloat (Fin False (3 / 4))) (PyFloat (Fin False 0))
       (PyFloat (Fin False (1 / 4))) = Inl ZeroDivisionError \<and>
   calculate_sharpe_ratio (PyFloat (Fin False (3 / 4))) (NpFloat (Fin True 0))
       (PyFloat (Fin False (1 / 4))) = Inr (NpFloat (Inf True))"
  using sharpe_value_and_failure
      [of "PyFloat (Fin False (1 / 2))" "PyFloat (Fin False (3 / 4))" "PyFloat (Fin False (1 / 4))"]
    sharpe_value_and_failure
      [of "PyFloat (Fin False 0)" "PyFloat (Fin False (3 / 4))" "PyFloat (Fin False (1 / 4))"]
    sharpe_value_and_failure
      [of "NpFloat (Fin True 0)" "PyFloat (Fin False (3 / 4))" "PyFloat (Fin False (1 / 4))"]
  by (simp add: mk_scalar_def fl_eval)

text \<open>
  Claim C6 as stated fails: at the default risk-free rate, doubling the return and the
  standard deviation of \<open>(1, 1)\<close> moves the ratio from \<open>0.99\<close> to \<open>0.995\<close>, since the
  risk-free rate is not scaled with them.
\<close>

theorem sharpe_scaling_counterexample:
  "calculate_sharpe_ratio (PyFloat (Fin False 2)) (PyFloat (Fin False 2)) default_risk_free_rate
     = Inr (PyFloat (fl (995 / 1000))) \<and>
   calculate_sharpe_ratio (PyFloat (Fin False 1)) (PyFloat (Fin False 1)) default_risk_free_rate
     = Inr (PyFloat (fl (99 / 100))) \<and>
   fl (995 / 1000) \<noteq> fl (99 / 100)"
  by (simp add: calculate_sharpe_ratio_def scalar_truediv_def scalar_sub_def mk_scalar_def
      default_risk_free_rate_def fl_eval)

text \<open>
  Claim C6, amended. With a risk-free rate of zero, a positive standard deviation and a
  positive factor \<open>k\<close> for which \<open>k\<close> times the return and \<open>k\<close> times the standard
  deviation are doubles again (the scaling is exact, as by a power of two within range),
  the Sharpe ratio of the scaled pair is the Sharpe ratio of the original pair.
\<close>

theorem sharpe_exact_scaling:
  assumes "is_double (Fin s m)" and "is_double (Fin False n)"
    and "is_double (Fin s (k * m))" and "is_double (Fin False (k * n))"
    and "0 < n" and "0 < k"
  shows "calculate_sharpe_ratio (mk_scalar a (Fin s (k * m))) (mk_scalar b (Fin False (k * n)))
             (mk_scalar c (Fin False 0)) =
         calculate_sharpe_ratio (mk_scalar a (Fin s m)) (mk_scalar b (Fin False n))
             (mk_scalar c (Fin False 0))"
proof -
  have q: "k * m / (k * n) = m / n"
    using assms(6) by simp
  have "fdiv (Fin s (k * m)) (Fin False (k * n)) = fdiv (Fin s m) (Fin False n)"
    using assms(5,6) by (simp add: q)
  then show ?thesis
    using assms(5,6)
    by (cases a; cases b; cases c)
       (simp_all only: calculate_sharpe_ratio_def scalar_truediv_def scalar_sub_def mk_scalar_def
          dbl_of.simps is_np.simps fsub_pos_zero [OF assms(1)] fsub_pos_zero [OF assms(3)]
          if_True if_False simp_thms is_zero.simps, simp_all)
qed

theorem sharpe_exact_scaling_witness:
  "calculate_sharpe_ratio (PyFloat (Fin False (4 * (3602879701896397 / 2 ^ 55))))
       (PyFloat (Fin False (4 * (3152519739159347 / 2 ^ 52)))) (PyFloat (Fin False 0)) =
   calculate_sharpe_ratio (PyFloat (Fin False (3602879701896397 / 2 ^ 55)))
       (PyFloat (Fin False (3152519739159347 / 2 ^ 52))) (PyFloat (Fin False 0))"
  using sharpe_exact_scaling [of False "3602879701896397 / 2 ^ 55" "3152519739159347 / 2 ^ 52" 4
      False False False]
  by (simp add: mk_scalar_def fl_eval)

section \<open>VaR and CVaR\<close>

text \<open>
  Claim C1 as stated fails: on twenty returns (the values 1 to 20 in some order) at the
  default confidence level the computed index is 1, VaR is the second smallest return,
  2, and CVaR is the mean of the one return below it, 1. VaR is the larger of the two.
\<close>

theorem var_le_cvar_counterexample:
  "calculate_var_cvar
     (map (\<lambda>n. Fin False (real_of_int n))
        [5, 3, 8, 1, 9, 2, 7, 4, 6, 10, 15, 13, 18, 11, 19, 12, 17, 14, 16, 20])
     default_confidence_level = Inr (Fin False 2, Fin False 1) \<and>
   \<not> fle (Fin False 2) (Fin False 1)"
  by (simp add: calculate_var_cvar_def default_confidence_level_def fl_eval np_eval fle_def)

text \<open>
  Claim C1, amended. For every returns array and confidence level that
  \<open>calculate_var_cvar\<close> accepts, VaR is the sorted return at some rank \<open>j\<close>, CVaR is
  numpy's mean of the \<open>j\<close> sorted returns strictly below that rank, and each of those
  returns is at most VaR in the order of the sort: the tail lies below VaR, not above.
\<close>

theorem cvar_tail_below_var:
  assumes "calculate_var_cvar rs c = Inr (v, cv)"
  shows "\<exists>j. j < length rs \<and> v = np_sort rs ! j \<and> cv = np_mean (take j (np_sort rs)) \<and>
           (\<forall>x\<in>set (take j (np_sort rs)). np_key x \<le> np_key v)"
proof (cases "py_int (fmul (fsub (Fin False 1) c) (of_count (length rs)))")
  case (Inl e)
  with assms show ?thesis
    by (simp add: calculate_var_cvar_error)
next
  case (Inr i)
  define j where "j = py_norm_index (length rs) i"
  from assms have rng: "0 \<le> j" "j < int (length rs)"
    and v: "v = np_sort rs ! nat j"
    and cv: "cv = np_mean (take (nat j) (np_sort rs))"
    unfolding calculate_var_cvar_index [OF Inr] j_def [symmetric]
    by (simp_all split: if_splits)
  from rng have lt: "nat j < length rs"
    by (simp add: nat_less_iff)
  have "\<forall>x\<in>set (take (nat j) (np_sort rs)). np_key x \<le> np_key v"
    unfolding v using np_sort_take_le [OF lt] by blast
  with lt v cv show ?thesis by blast
qed

theorem cvar_tail_below_var_witness:
  "calculate_var_cvar [Fin False 4, Fin False 2, Fin False 3, Fin False 1] (fl (1 / 2))
     = Inr (Fin False 3, Fin False (3 / 2)) \<and>
   (\<exists>j. j < length [Fin False 4, Fin False 2, Fin False 3, Fin False 1] \<and>
      Fin False 3 = np_sort [Fin False 4, Fin False 2, Fin False 3, Fin False 1] ! j \<and>
      Fin False (3 / 2) =
        np_mean (take j (np_sort [Fin False 4, Fin False 2, Fin False 3, Fin False 1])) \<and>
      (\<forall>x\<in>set (take j (np_sort [Fin False 4, Fin False 2, Fin False 3, Fin False 1])).
          np_key x \<le> np_key (Fin False 3)))"
proof -
  have e: "calculate_var_cvar [Fin False 4, Fin False 2, Fin False 3, Fin False 1] (fl (1 / 2))
     = Inr (Fin False 3, Fin False (3 / 2))"
    by (simp add: calculate_var_cvar_def fl_eval np_eval)
  show ?thesis
    by (rule conjI [OF e cvar_tail_below_var [OF e]])
qed

text \<open>
  Claim C5 as stated fails: for three returns and the confidence level
  \<open>0.33333333333333337\<close> the exact product \<open>(1 - c) * 3\<close> is just below 2, so its floor is
  1, but the product rounds to the double \<open>2.0\<close> and the code reads rank 2.
\<close>

theorem var_rank_counterexample:
  "calculate_var_cvar [Fin False 1, Fin False 2, Fin False 3] (fl (33333333333333337 / 10 ^ 17))
     = Inr (Fin False 3, Fin False (3 / 2)) \<and>
   \<lfloor>(1 - val (fl (33333333333333337 / 10 ^ 17))) * real (length [Fin False 1, Fin False 2, Fin False 3])\<rfloor> = 1 \<and>
   np_sort [Fin False 1, Fin False 2, Fin False 3] ! 1 = Fin False 2 \<and>
   np_sort [Fin False 1, Fin False 2, Fin False 3] ! 2 = Fin False 3"
  by (simp add: calculate_var_cvar_def fl_eval np_eval)

text \<open>
  Claim C5, amended. For a non-empty returns array of length \<open>N\<close> and a confidence level
  \<open>c\<close> whose index \<open>i = int((1 - c) * N)\<close>, computed in double arithmetic, lies in
  \<open>0 \<le> i < N\<close>, the returns are sorted ascending, VaR is the sorted return at rank \<open>i\<close>,
  and CVaR is numpy's mean of the first \<open>i\<close> sorted returns (NaN when \<open>i = 0\<close>).
\<close>

theorem var_cvar_at_computed_rank:
  assumes "rs \<noteq> []"
    and "py_int (fmul (fsub (Fin False 1) c) (of_count (length rs))) = Inr i"
    and "0 \<le> i" and "i < int (length rs)"
  shows "sorted (map np_key (np_sort rs)) \<and> mset (np_sort rs) = mset rs \<and>
         calculate_var_cvar rs c =
           Inr (np_sort rs ! nat i, np_mean (take (nat i) (np_sort rs))) \<and>
         (i = 0 \<longrightarrow> calculate_var_cvar rs c = Inr (np_sort rs ! 0, NaN))"
proof -
  from assms(3) have n: "py_norm_index (length rs) i = i"
    by (simp add: py_norm_index_def)
  have "calculate_var_cvar rs c =
           Inr (np_sort rs ! nat i, np_mean (take (nat i) (np_sort rs)))"
    unfolding calculate_var_cvar_index [OF assms(2)] n using assms(3,4) by simp
  then show ?thesis
    by (auto simp: sorted_np_sort)
qed

theorem var_cvar_at_computed_rank_witness:
  "calculate_var_cvar
     [Fin False 7, Fin True 2, Fin False 4, Fin False 0, Fin False 1, Fin False 3] (fl (1 / 2))
     = Inr (Fin False 3, Fin True (6004799503160661 / 18014398509481984))"
  using var_cvar_at_computed_rank
    [of "[Fin False 7, Fin True 2, Fin False 4, Fin False 0, Fin False 1, Fin False 3]"
        "fl (1 / 2)" 3]
  by (simp add: fl_eval np_eval)

text \<open>
  Claim C9 as stated fails on the empty array: the index is 0 there as well, and reading
  \<^verbatim>\<open>sorted_returns[0]\<close> raises IndexError before any CVaR is computed.
\<close>

theorem cvar_index_zero_counterexample:
  "py_int (fmul (fsub (Fin False 1) (Fin False 1)) (of_count (length ([]::double list)))) = Inr 0 \<and>
   calculate_var_cvar [] (Fin False 1) = Inl IndexError"
  by (simp add: calculate_var_cvar_def fl_eval np_eval)

text \<open>
  Claim C9, amended. For every non-empty returns array and every confidence level whose
  index, computed in double arithmetic, is 0, \<open>calculate_var_cvar\<close> returns NaN, the
  mean of an empty slice, as CVaR, and as VaR the first element of the sort: an element
  of the array that no other precedes. Nothing guards against it.
\<close>

theorem cvar_index_zero:
  assumes "rs \<noteq> []"
    and "py_int (fmul (fsub (Fin False 1) c) (of_count (length rs))) = Inr 0"
  shows "calculate_var_cvar rs c = Inr (np_sort rs ! 0, NaN) \<and>
         np_sort rs ! 0 \<in> set rs \<and>
         (\<forall>x\<in>set rs. np_key (np_sort rs ! 0) \<le> np_key x)"
proof -
  from assms(1) have len: "0 < length (np_sort rs)"
    by simp
  have res: "calculate_var_cvar rs c = Inr (np_sort rs ! 0, NaN)"
    unfolding calculate_var_cvar_index [OF assms(2)] using assms(1)
    by (simp add: py_norm_index_def)
  have mem: "np_sort rs ! 0 \<in> set (np_sort rs)"
    using len by (rule nth_mem)
  have "np_key (np_sort rs ! 0) \<le> np_key x" if "x \<in> set rs" for x
  proof -
    from that have "x \<in> set (np_sort rs)" by simp
    then obtain k where k: "k < length (np_sort rs)" "x = np_sort rs ! k"
      by (metis in_set_conv_nth)
    have "map np_key (np_sort rs) ! 0 \<le> map np_key (np_sort rs) ! k"
      using k(1) by (intro sorted_nth_mono [OF sorted_np_sort]) simp_all
    with k len show ?thesis by simp
  qed
  with res mem show ?thesis by simp
qed

theorem cvar_index_zero_witness:
  "calculate_var_cvar [Fin False 4, Fin False 2, Fin False 3, Fin False 1] (Fin False 1)
     = Inr (Fin False 1, NaN) \<and>
   calculate_var_cvar [Fin False 4, Fin False 2, Fin False 3, Fin False 1] (fl (9 / 10))
     = Inr (Fin False 1, NaN)"
  using cvar_index_zero [of "[Fin False 4, Fin False 2, Fin False 3, Fin False 1]" "Fin False 1"]
    cvar_index_zero [of "[Fin False 4, Fin False 2, Fin False 3, Fin False 1]" "fl (9 / 10)"]
  by (simp add: fl_eval np_eval)

section \<open>Rebalancing is all or nothing\<close>

lemma np_any_map_iff: "np_any (map P xs) \<longleftrightarrow> (\<exists>x\<in>set xs. P x)"
  by (simp add: np_any_def list_ex_iff)

lemma rebalance_equal_length:
  assumes "length ws = length ts"
  shows "rebalance_portfolio ws ts tol =
           Inr (if \<exists>i<length ws. fgt (fabs (fsub (ws ! i) (ts ! i))) tol then ts else ws)"
proof -
  define ds where "ds = map fabs (map2 fsub ws ts)"
  have len: "length ds = length ws"
    using assms by (simp add: ds_def)
  have nth: "ds ! i = fabs (fsub (ws ! i) (ts ! i))" if "i < length ws" for i
    using that assms by (simp add: ds_def)
  have "np_any (map (\<lambda>x. fgt x tol) ds) \<longleftrightarrow> (\<exists>i<length ds. fgt (ds ! i) tol)"
    unfolding np_any_map_iff by (metis in_set_conv_nth)
  also have "\<dots> \<longleftrightarrow> (\<exists>i<length ws. fgt (fabs (fsub (ws ! i) (ts ! i))) tol)"
    using len nth by auto
  finally have any: "np_any (map (\<lambda>x. fgt x tol) ds)
      \<longleftrightarrow> (\<exists>i<length ws. fgt (fabs (fsub (ws ! i) (ts ! i))) tol)" .
  have "rebalance_portfolio ws ts tol = (if np_any (map (\<lambda>x. fgt x tol) ds) then Inr ts else Inr ws)"
    using assms by (simp add: rebalance_portfolio_def np_broadcast2_def Let_def ds_def)
  then show ?thesis
    unfolding any by auto
qed

text \<open>
  Claim C2 as stated fails on a NaN: the deviation of a NaN weight is NaN, which is not
  at most the tolerance, yet no comparison with it is true and the input weights are
  returned.
\<close>

theorem rebalance_nan_counterexample:
  "rebalance_portfolio [NaN] [fl (1 / 2)] default_tolerance = Inr [NaN] \<and>
   \<not> fle (fabs (fsub NaN (fl (1 / 2)))) default_tolerance \<and>
   [NaN] \<noteq> [fl (1 / 2)]"
  by (simp add: rebalance_portfolio_def np_broadcast2_def np_any_def fgt_def fle_def
      default_tolerance_def fl_eval)

text \<open>
  Claim C2, amended. For weight vectors of equal length and every tolerance,
  \<open>rebalance_portfolio\<close> returns the target weights when some per-asset deviation
  \<open>|weights[i] - target_weights[i]|\<close>, computed in double arithmetic, compares greater
  than the tolerance, and the input weights otherwise, that is when every deviation is
  at most the tolerance or not comparable with it (NaN). The result is always one of the
  two vectors as a whole.
\<close>

theorem rebalance_all_or_nothing:
  assumes "length weights = length target_weights"
  shows "rebalance_portfolio weights target_weights tolerance =
           Inr (if \<exists>i<length weights.
                     fgt (fabs (fsub (weights ! i) (target_weights ! i))) tolerance
                then target_weights else weights) \<and>
         ((\<exists>i<length weights. fgt (fabs (fsub (weights ! i) (target_weights ! i))) tolerance)
            \<longleftrightarrow> \<not> (\<forall>i<length weights.
                    fle (fabs (fsub (weights ! i) (target_weights ! i))) tolerance \<or>
                    fabs (fsub (weights ! i) (target_weights ! i)) = NaN \<or> tolerance = NaN))"
  unfolding rebalance_equal_length [OF assms] using not_fgt_iff by auto

theorem rebalance_all_or_nothing_witness:
  "rebalance_portfolio [Fin False (1 / 2), Fin False (1 / 2)]
       [Fin False (17 / 32), Fin False (15 / 32)] (Fin False (1 / 16))
     = Inr [Fin False (1 / 2), Fin False (1 / 2)] \<and>
   rebalance_portfolio [Fin False (1 / 2), Fin False (1 / 2)]
       [Fin False (5 / 8), Fin False (3 / 8)] (Fin False (1 / 16))
     = Inr [Fin False (5 / 8), Fin False (3 / 8)] \<and>
   rebalance_portfolio [Fin False 1] [Fin True (1 / 2 ^ 54)] (Fin False 1) = Inr [Fin False 1]"
  using rebalance_all_or_nothing
      [of "[Fin False (1 / 2), Fin False (1 / 2)]" "[Fin False (17 / 32), Fin False (15 / 32)]"
          "Fin False (1 / 16)"]
    rebalance_all_or_nothing
      [of "[Fin False (1 / 2), Fin False (1 / 2)]" "[Fin False (5 / 8), Fin False (3 / 8)]"
          "Fin False (1 / 16)"]
    rebalance_all_or_nothing
      [of "[Fin False 1]" "[Fin True (1 / 2 ^ 54)]" "Fin False 1"]
  by (simp add: Ex_less_Suc All_less_Suc fgt_def fle_def fl_eval)

section \<open>Transaction-cost adjustment does not renormalise\<close>




section \<open>Discounted cash flow: no validation\<close>

lemma seq_add_zeros:
  assumes "\<forall>x\<in>set xs. x = Fin False 0"
  shows "seq_add (Fin False 0) xs = Fin False 0"
  using assms by (induction xs) simp_all

lemma lanes_zeros:
  assumes "\<forall>x\<in>set r. x = Fin False 0" and "\<forall>x\<in>set xs. x = Fin False 0"
  shows "(\<forall>x\<in>set (fst (lanes r xs)). x = Fin False 0) \<and>
         (\<forall>x\<in>set (snd (lanes r xs)). x = Fin False 0) \<and>
         length (fst (lanes r xs)) = min (length r) (if 8 \<le> length xs then 8 else length r)"
  using assms
proof (induction r xs rule: lanes.induct)
  case (1 r xs)
  show ?case
  proof (cases "8 \<le> length xs")
    case False
    with "1.prems" show ?thesis
      by (simp add: lanes.simps [of r xs])
  next
    case True
    have r': "\<forall>x\<in>set (map2 fadd r (take 8 xs)). x = Fin False 0"
    proof
      fix x assume "x \<in> set (map2 fadd r (take 8 xs))"
      then obtain a b where ab: "a \<in> set r" "b \<in> set (take 8 xs)" "x = fadd a b"
        by (auto dest: set_zip_leftD set_zip_rightD)
      from ab(1) "1.prems"(1) have "a = Fin False 0"
        by blast
      moreover from ab(2) "1.prems"(2) have "b = Fin False 0"
        by (blast dest: in_set_takeD)
      ultimately show "x = Fin False 0"
        using ab(3) by simp
    qed
    have xs': "\<forall>x\<in>set (drop 8 xs). x = Fin False 0"
      using "1.prems"(2) by (auto dest: in_set_dropD)
    have len: "length (map2 fadd r (take 8 xs)) = min (length r) 8"
      using True by simp
    from "1.IH" [OF True r' xs'] True len show ?thesis
      by (simp add: lanes.simps [of r xs] min_def split: if_splits)
  qed
qed

lemma combine_zeros:
  assumes "\<forall>x\<in>set r. x = Fin False 0" and "length r = 8"
  shows "combine r = Fin False 0"
proof -
  have "r ! i = Fin False 0" if "i < 8" for i
    using assms that by simp
  then show ?thesis
    by (simp add: combine_def)
qed

lemma pairwise_sum_zeros:
  assumes "\<forall>x\<in>set a. x = Fin False 0"
  shows "pairwise_sum a = Fin False 0"
  using assms
proof (induction a rule: pairwise_sum.induct)
  case (1 a)
  consider "length a < 8" | "8 \<le> length a" "length a \<le> 128" | "128 < length a"
    by linarith
  then show ?case
  proof cases
    case 1
    with "1.prems" show ?thesis
      by (simp add: pairwise_sum.simps [of a] seq_add_zeros)
  next
    case 2
    have t: "\<forall>x\<in>set (take 8 a). x = Fin False 0" and d: "\<forall>x\<in>set (drop 8 a). x = Fin False 0"
      using "1.prems" by (auto dest: in_set_takeD in_set_dropD)
    have l8: "length (take 8 a) = 8"
      using 2 by simp
    from lanes_zeros [OF t d] l8
    have "\<forall>x\<in>set (fst (lanes (take 8 a) (drop 8 a))). x = Fin False 0"
      and "\<forall>x\<in>set (snd (lanes (take 8 a) (drop 8 a))). x = Fin False 0"
      and "length (fst (lanes (take 8 a) (drop 8 a))) = 8"
      by (simp_all split: if_splits)
    then show ?thesis
      using 2 by (simp add: pairwise_sum.simps [of a] combine_zeros seq_add_zeros)
  next
    case 3
    let ?k = "length a div 2 - length a div 2 mod 8"
    have t: "\<forall>x\<in>set (take ?k a). x = Fin False 0" and d: "\<forall>x\<in>set (drop ?k a). x = Fin False 0"
      using "1.prems" by (auto dest: in_set_takeD in_set_dropD)
    from 3 have c: "\<not> length a < 8" "\<not> length a \<le> 128"
      by simp_all
    from "1.IH"(1) [OF c t] "1.IH"(2) [OF c d] c show ?thesis
      by (simp add: pairwise_sum.simps [of a])
  qed
qed

lemma np_mean_zeros:
  assumes "\<forall>x\<in>set a. x = Fin False 0"
  shows "np_mean a = (if a = [] then NaN else Fin False 0)"
  using assms
  by (simp add: np_mean_def np_sum_def of_count_def pairwise_sum_zeros fl_mag_def round_mag_def)

lemma collect_map_Inr: "collect (map (\<lambda>x. Inr (f x)) xs) = Inr (map f xs)"
  by (induction xs) simp_all

lemma collect_Inl:
  assumes "collect rs = Inl e"
  shows "Inl e \<in> set rs"
  using assms by (induction rs) (auto split: sum.splits)

lemma scalar_pow_Inl:
  assumes "scalar_pow pw x k = Inl e"
  shows "e = OverflowError \<and> \<not> is_np x"
  using assms by (auto simp: scalar_pow_def split: if_splits)

lemma is_np_one_plus [simp]: "is_np (scalar_add (PyFloat d) x) = is_np x"
  by (cases x) (simp_all add: scalar_add_def mk_scalar_def)

lemma dbl_of_one_plus [simp]: "dbl_of (scalar_add (PyFloat d) x) = fadd d (dbl_of x)"
  by (cases x) (simp_all add: scalar_add_def mk_scalar_def)

lemma discounted_value_Inl:
  assumes "discounted_value pw row rate n = Inl e"
  shows "e = OverflowError \<and> \<not> is_np rate \<and> 0 < n"
proof -
  let ?f = "\<lambda>t. case scalar_pow pw (scalar_add (PyFloat (Fin False 1)) rate) (t + 1) of
                Inl e \<Rightarrow> Inl e
              | Inr p \<Rightarrow> Inr (fdiv (row ! t) (dbl_of p))"
  from assms have "collect (map ?f [0..<n]) = Inl e"
    by (simp add: discounted_value_def split: sum.splits)
  then have "Inl e \<in> set (map ?f [0..<n])"
    by (rule collect_Inl)
  then obtain t where t: "t < n" "?f t = Inl e"
    by auto
  then have "scalar_pow pw (scalar_add (PyFloat (Fin False 1)) rate) (t + 1) = Inl e"
    by (simp split: sum.splits)
  from scalar_pow_Inl [OF this] t(1) show ?thesis
    by simp
qed

lemma discounted_value_Nil: "discounted_value pw row rate 0 = Inr (Fin False 0)"
  by (simp add: discounted_value_def np_sum_def pairwise_sum.simps)

lemma discounted_value_np:
  assumes "is_np rate \<or> (\<forall>t<n. \<not> (is_finite (fadd (Fin False 1) (dbl_of rate)) \<and>
                                  is_inf (pw (fadd (Fin False 1) (dbl_of rate)) (t + 1))))"
  shows "discounted_value pw row rate n =
           Inr (np_sum (map (\<lambda>t. fdiv (row ! t) (pw (fadd (Fin False 1) (dbl_of rate)) (t + 1)))
                            [0..<n]))"
proof -
  have "map (\<lambda>t. case scalar_pow pw (scalar_add (PyFloat (Fin False 1)) rate) (t + 1) of
                Inl e \<Rightarrow> Inl e
              | Inr p \<Rightarrow> Inr (fdiv (row ! t) (dbl_of p))) [0..<n] =
        map (\<lambda>t. Inr (fdiv (row ! t) (pw (fadd (Fin False 1) (dbl_of rate)) (t + 1)))) [0..<n]"
  proof (rule map_cong [OF refl])
    fix t assume "t \<in> set [0..<n]"
    then have "t < n" by simp
    with assms have
      "scalar_pow pw (scalar_add (PyFloat (Fin False 1)) rate) (t + 1) =
         Inr (mk_scalar (is_np rate) (pw (fadd (Fin False 1) (dbl_of rate)) (t + 1)))"
      by (auto simp: scalar_pow_def mk_scalar_def)
    then show "(case scalar_pow pw (scalar_add (PyFloat (Fin False 1)) rate) (t + 1) of
                Inl e \<Rightarrow> Inl e
              | Inr p \<Rightarrow> Inr (fdiv (row ! t) (dbl_of p))) =
         Inr (fdiv (row ! t) (pw (fadd (Fin False 1) (dbl_of rate)) (t + 1)))"
      by (simp add: mk_scalar_def)
  qed
  then show ?thesis
    by (simp only: discounted_value_def collect_map_Inr sum.case)
qed

lemma np_random_normal_rows:
  "np_random_normal sample loc scale m n =
     (if list_ex signbit scale then Inl ValueError
      else Inr (map (\<lambda>i. map (sample i) [0..<n]) [0..<m]))"
  by (simp add: np_random_normal_def)

lemma calculate_dcf_rows:
  "calculate_dcf pw sample cf rate m =
     (if list_ex signbit (map (\<lambda>c. fmul (fl (5 / 100)) c) cf) then Inl ValueError
      else case collect (map (\<lambda>i. discounted_value pw (map (sample i) [0..<length cf]) rate
                                     (length cf)) [0..<m]) of
             Inl e \<Rightarrow> Inl e
           | Inr discounted_values \<Rightarrow> Inr (np_mean discounted_values))"
proof -
  have "map (\<lambda>i. discounted_value pw (map (\<lambda>i. map (sample i) [0..<length cf]) [0..<m] ! i) rate
                    (length cf)) [0..<m] =
        map (\<lambda>i. discounted_value pw (map (sample i) [0..<length cf]) rate (length cf)) [0..<m]"
    by (rule map_cong [OF refl]) simp
  then show ?thesis
    unfolding calculate_dcf_def Let_def np_random_normal_rows
    by (simp only: sum.case if_distrib [of "case_sum _ _"] cong: if_cong)
qed

lemma calculate_dcf_empty:
  "calculate_dcf pw sample [] rate m = Inr (if m = 0 then NaN else Fin False 0)"
proof -
  have "np_mean (map (\<lambda>i. Fin False 0) [0..<m]) = (if m = 0 then NaN else Fin False 0)"
    by (subst np_mean_zeros) auto
  then show ?thesis
    by (simp add: calculate_dcf_rows discounted_value_Nil collect_map_Inr)
qed

lemma calculate_dcf_Inl:
  assumes "calculate_dcf pw sample cf rate m = Inl e"
  shows "(e = ValueError \<and> list_ex signbit (map (\<lambda>c. fmul (fl (5 / 100)) c) cf)) \<or>
         (e = OverflowError \<and> \<not> is_np rate \<and> cf \<noteq> [] \<and> 0 < m \<and>
          \<not> list_ex signbit (map (\<lambda>c. fmul (fl (5 / 100)) c) cf))"
proof (cases "list_ex signbit (map (\<lambda>c. fmul (fl (5 / 100)) c) cf)")
  case True
  with assms show ?thesis
    by (simp add: calculate_dcf_rows)
next
  case False
  let ?g = "\<lambda>i. discounted_value pw (map (sample i) [0..<length cf]) rate (length cf)"
  from assms False have "collect (map ?g [0..<m]) = Inl e"
    by (simp add: calculate_dcf_rows split: sum.splits)
  then have "Inl e \<in> set (map ?g [0..<m])"
    by (rule collect_Inl)
  then obtain i where i: "i < m" "?g i = Inl e"
    by auto
  from discounted_value_Inl [OF i(2)] i(1) False show ?thesis
    by auto
qed

lemma calculate_dcf_formula:
  assumes "\<not> list_ex signbit (map (\<lambda>c. fmul (fl (5 / 100)) c) cf)"
    and "is_np rate \<or> (\<forall>t<length cf. \<not> (is_finite (fadd (Fin False 1) (dbl_of rate)) \<and>
                                  is_inf (pw (fadd (Fin False 1) (dbl_of rate)) (t + 1))))"
  shows "calculate_dcf pw sample cf rate m =
           Inr (np_mean (map (\<lambda>i. np_sum (map (\<lambda>t.
                  fdiv (sample i t) (pw (fadd (Fin False 1) (dbl_of rate)) (t + 1)))
                  [0..<length cf])) [0..<m]))"
proof -
  have inner: "map (\<lambda>t. fdiv (map (sample i) [0..<length cf] ! t)
                       (pw (fadd (Fin False 1) (dbl_of rate)) (t + 1))) [0..<length cf] =
       map (\<lambda>t. fdiv (sample i t) (pw (fadd (Fin False 1) (dbl_of rate)) (t + 1)))
           [0..<length cf]" for i
    by (rule map_cong [OF refl]) simp
  have "calculate_dcf pw sample cf rate m =
      Inr (np_mean (map (\<lambda>i. np_sum (map (\<lambda>t. fdiv (map (sample i) [0..<length cf] ! t)
                       (pw (fadd (Fin False 1) (dbl_of rate)) (t + 1))) [0..<length cf]))
            [0..<m]))"
    using assms(1)
    by (simp only: calculate_dcf_rows collect_map_Inr if_False sum.case
        discounted_value_np [where rate = rate and n = "length cf" and pw = pw, OF assms(2)])
  then show ?thesis
    by (simp only: inner)
qed

lemma fadd_not_finite:
  assumes "\<not> is_finite x \<or> \<not> is_finite y"
  shows "\<not> is_finite (fadd x y)"
  using assms by (cases x; cases y) simp_all

lemma fdiv_zero_not_finite:
  assumes "is_zero y"
  shows "\<not> is_finite (fdiv x y)"
  using assms by (cases x; cases y) simp_all

lemma fdiv_count_not_finite:
  assumes "\<not> is_finite x"
  shows "\<not> is_finite (fdiv x (of_count n))"
  using assms by (cases x) (simp_all add: of_count_def)

lemma seq_add_not_finite:
  assumes "\<not> is_finite r \<or> (\<exists>x\<in>set xs. \<not> is_finite x)"
  shows "\<not> is_finite (seq_add r xs)"
  using assms
proof (induction xs arbitrary: r)
  case Nil
  then show ?case by simp
next
  case (Cons x xs)
  show ?case
  proof (cases "\<not> is_finite r \<or> \<not> is_finite x")
    case True
    then have "\<not> is_finite (fadd r x)"
      by (rule fadd_not_finite)
    then show ?thesis
      using Cons.IH [of "fadd r x"] by simp
  next
    case False
    with Cons.prems have "\<exists>y\<in>set xs. \<not> is_finite y"
      by auto
    then show ?thesis
      using Cons.IH [of "fadd r x"] by simp
  qed
qed

lemma map2_fadd_not_finite:
  assumes "length r = length ys" and "(\<exists>x\<in>set r. \<not> is_finite x) \<or> (\<exists>x\<in>set ys. \<not> is_finite x)"
  shows "\<exists>x\<in>set (map2 fadd r ys). \<not> is_finite x"
proof -
  from assms(2) obtain i where i: "i < length r" "\<not> is_finite (r ! i) \<or> \<not> is_finite (ys ! i)"
    using assms(1) by (metis in_set_conv_nth)
  then have "\<not> is_finite (fadd (r ! i) (ys ! i))"
    by (intro fadd_not_finite) simp
  moreover have "map2 fadd r ys ! i = fadd (r ! i) (ys ! i)"
    using i(1) assms(1) by simp
  moreover have "i < length (map2 fadd r ys)"
    using i(1) assms(1) by simp
  ultimately show ?thesis
    by (metis nth_mem)
qed

lemma lanes_not_finite:
  assumes "length r = 8"
    and "(\<exists>x\<in>set r. \<not> is_finite x) \<or> (\<exists>x\<in>set xs. \<not> is_finite x)"
  shows "length (fst (lanes r xs)) = 8 \<and>
         ((\<exists>x\<in>set (fst (lanes r xs)). \<not> is_finite x) \<or>
          (\<exists>x\<in>set (snd (lanes r xs)). \<not> is_finite x))"
  using assms
proof (induction r xs rule: lanes.induct)
  case (1 r xs)
  show ?case
  proof (cases "8 \<le> length xs")
    case False
    with "1.prems" show ?thesis
      by (simp add: lanes.simps [of r xs])
  next
    case True
    have len: "length r = length (take 8 xs)"
      using True "1.prems"(1) by simp
    have len': "length (map2 fadd r (take 8 xs)) = 8"
      using True "1.prems"(1) by simp
    have "(\<exists>x\<in>set (map2 fadd r (take 8 xs)). \<not> is_finite x) \<or>
          (\<exists>x\<in>set (drop 8 xs). \<not> is_finite x)"
    proof (cases "(\<exists>x\<in>set r. \<not> is_finite x) \<or> (\<exists>x\<in>set (take 8 xs). \<not> is_finite x)")
      case True
      then show ?thesis
        using map2_fadd_not_finite [OF len] by blast
    next
      case False
      with "1.prems"(2) have "\<exists>x\<in>set xs. \<not> is_finite x"
        by blast
      then have "\<exists>x\<in>set (take 8 xs @ drop 8 xs). \<not> is_finite x"
        by simp
      with False show ?thesis
        by (auto simp del: append_take_drop_id)
    qed
    from "1.IH" [OF True len' this] True show ?thesis
      by (simp add: lanes.simps [of r xs])
  qed
qed

lemma combine_not_finite:
  assumes "length r = 8" and "\<exists>x\<in>set r. \<not> is_finite x"
  shows "\<not> is_finite (combine r)"
proof -
  from assms obtain i where "i < 8" "\<not> is_finite (r ! i)"
    by (metis in_set_conv_nth)
  then consider "\<not> is_finite (r ! 0)" | "\<not> is_finite (r ! 1)" | "\<not> is_finite (r ! 2)"
    | "\<not> is_finite (r ! 3)" | "\<not> is_finite (r ! 4)" | "\<not> is_finite (r ! 5)"
    | "\<not> is_finite (r ! 6)" | "\<not> is_finite (r ! 7)"
    by (auto simp: less_Suc_eq numeral_eq_Suc)
  then show ?thesis
    by cases (simp_all add: combine_def fadd_not_finite)
qed

lemma pairwise_sum_not_finite:
  assumes "\<exists>x\<in>set a. \<not> is_finite x"
  shows "\<not> is_finite (pairwise_sum a)"
  using assms
proof (induction a rule: pairwise_sum.induct)
  case (1 a)
  consider "length a < 8" | "8 \<le> length a" "length a \<le> 128" | "128 < length a"
    by linarith
  then show ?case
  proof cases
    case 1
    with "1.prems" show ?thesis
      by (simp add: pairwise_sum.simps [of a] seq_add_not_finite)
  next
    case 2
    have l8: "length (take 8 a) = 8"
      using 2 by simp
    from "1.prems" have "\<exists>x\<in>set (take 8 a @ drop 8 a). \<not> is_finite x"
      by simp
    then have "(\<exists>x\<in>set (take 8 a). \<not> is_finite x) \<or> (\<exists>x\<in>set (drop 8 a). \<not> is_finite x)"
      by (auto simp del: append_take_drop_id)
    from lanes_not_finite [OF l8 this]
    have len: "length (fst (lanes (take 8 a) (drop 8 a))) = 8"
      and ex: "(\<exists>x\<in>set (fst (lanes (take 8 a) (drop 8 a))). \<not> is_finite x) \<or>
               (\<exists>x\<in>set (snd (lanes (take 8 a) (drop 8 a))). \<not> is_finite x)"
      by simp_all
    have "\<not> is_finite (seq_add (combine (fst (lanes (take 8 a) (drop 8 a))))
                                 (snd (lanes (take 8 a) (drop 8 a))))"
      using ex combine_not_finite [OF len] by (intro seq_add_not_finite) blast
    then show ?thesis
      using 2 by (simp add: pairwise_sum.simps [of a])
  next
    case 3
    let ?k = "length a div 2 - length a div 2 mod 8"
    from 3 have c: "\<not> length a < 8" "\<not> length a \<le> 128"
      by simp_all
    from "1.prems" have "\<exists>x\<in>set (take ?k a @ drop ?k a). \<not> is_finite x"
      by simp
    then have "(\<exists>x\<in>set (take ?k a). \<not> is_finite x) \<or> (\<exists>x\<in>set (drop ?k a). \<not> is_finite x)"
      by (auto simp del: append_take_drop_id)
    then have "\<not> is_finite (pairwise_sum (take ?k a)) \<or> \<not> is_finite (pairwise_sum (drop ?k a))"
      using "1.IH"(1) [OF c] "1.IH"(2) [OF c] by blast
    then have "\<not> is_finite (fadd (pairwise_sum (take ?k a)) (pairwise_sum (drop ?k a)))"
      by (rule fadd_not_finite)
    then show ?thesis
      using c by (simp add: pairwise_sum.simps [of a])
  qed
qed

lemma np_sum_not_finite:
  assumes "\<exists>x\<in>set a. \<not> is_finite x"
  shows "\<not> is_finite (np_sum a)"
  unfolding np_sum_def using pairwise_sum_not_finite [OF assms] by (intro fadd_not_finite) simp

lemma np_mean_not_finite:
  assumes "\<exists>x\<in>set a. \<not> is_finite x"
  shows "\<not> is_finite (np_mean a)"
  unfolding np_mean_def using np_sum_not_finite [OF assms] by (rule fdiv_count_not_finite)

lemma calculate_dcf_zero_factor:
  assumes "\<not> list_ex signbit (map (\<lambda>c. fmul (fl (5 / 100)) c) cf)"
    and "is_np rate \<or> (\<forall>t<length cf. \<not> (is_finite (fadd (Fin False 1) (dbl_of rate)) \<and>
                                  is_inf (pw (fadd (Fin False 1) (dbl_of rate)) (t + 1))))"
    and "t < length cf" and "is_zero (pw (fadd (Fin False 1) (dbl_of rate)) (t + 1))"
    and "0 < m"
  shows "\<exists>v. calculate_dcf pw sample cf rate m = Inr v \<and> \<not> is_finite v"
proof -
  let ?row = "\<lambda>i. map (\<lambda>t. fdiv (sample i t) (pw (fadd (Fin False 1) (dbl_of rate)) (t + 1)))
                        [0..<length cf]"
  have "\<not> is_finite (np_sum (?row i))" for i
  proof (rule np_sum_not_finite)
    have "fdiv (sample i t) (pw (fadd (Fin False 1) (dbl_of rate)) (t + 1)) \<in> set (?row i)"
      using assms(3) by (force simp: image_iff intro: bexI [of _ t])
    moreover have "\<not> is_finite (fdiv (sample i t) (pw (fadd (Fin False 1) (dbl_of rate)) (t + 1)))"
      using assms(4) by (rule fdiv_zero_not_finite)
    ultimately show "\<exists>x\<in>set (?row i). \<not> is_finite x"
      by blast
  qed
  then have "\<exists>x\<in>set (map (\<lambda>i. np_sum (?row i)) [0..<m]). \<not> is_finite x"
    using assms(5) by (auto intro: bexI [of _ 0])
  then have "\<not> is_finite (np_mean (map (\<lambda>i. np_sum (?row i)) [0..<m]))"
    by (rule np_mean_not_finite)
  then show ?thesis
    unfolding calculate_dcf_formula [where pw = pw and rate = rate and cf = cf, OF assms(1,2)]
    by simp
qed

text \<open>
  Claim C10 as stated fails: an empty cash-flow array with the default number of
  simulations gives \<open>0.0\<close>, the mean of a thousand empty sums, and a negative discount
  rate such as \<open>-0.5\<close> gives an ordinary finite value (here with every draw at its
  mean). Neither is NaN or a division by zero.
\<close>

theorem dcf_propagation_counterexample:
  "calculate_dcf pow_rounded (at_mean []) [] (PyFloat (fl (1 / 10))) default_num_simulations
     = Inr (Fin False 0) \<and>
   calculate_dcf pow_rounded (at_mean [Fin False 100]) [Fin False 100]
       (PyFloat (Fin True (1 / 2))) 1 = Inr (Fin False 200)"
proof
  show "calculate_dcf pow_rounded (at_mean []) [] (PyFloat (fl (1 / 10))) default_num_simulations
     = Inr (Fin False 0)"
    by (simp add: calculate_dcf_empty default_num_simulations_def)
  show "calculate_dcf pow_rounded (at_mean [Fin False 100]) [Fin False 100]
       (PyFloat (Fin True (1 / 2))) 1 = Inr (Fin False 200)"
    apply (simp add: calculate_dcf_def np_random_normal_def discounted_value_def at_mean_def
        scalar_add_def mk_scalar_def)
    apply (simp add: scalar_pow_def fl_eval np_eval)
    done
qed

text \<open>
  Claim C10, amended. \<open>calculate_dcf\<close> validates neither the discount rate nor the
  emptiness of the cash flows; for every such input the computation proceeds with the
  unguarded formula. An exception is the sampler's ValueError on a negative scale or the
  OverflowError of a Python float power, never a check of the rate or of the length. On
  an empty array the formula gives \<open>0.0\<close> (NaN with no simulations), whatever the rate;
  otherwise it gives the mean of the discounted sums, which is an infinity or NaN, with
  no exception, as soon as a discount factor is zero (the rate \<open>-1\<close>, or a power that
  underflows).
\<close>

theorem dcf_unguarded:
  "calculate_dcf pw sample [] discount_rate num_simulations =
     Inr (if num_simulations = 0 then NaN else Fin False 0) \<and>
   (calculate_dcf pw sample cash_flows discount_rate num_simulations = Inl e \<longrightarrow>
      e = ValueError \<and> list_ex signbit (map (\<lambda>c. fmul (fl (5 / 100)) c) cash_flows) \<or>
      e = OverflowError \<and> \<not> is_np discount_rate \<and> cash_flows \<noteq> [] \<and> 0 < num_simulations) \<and>
   (\<not> list_ex signbit (map (\<lambda>c. fmul (fl (5 / 100)) c) cash_flows) \<and>
    (is_np discount_rate \<or>
     (\<forall>t<length cash_flows.
        \<not> (is_finite (fadd (Fin False 1) (dbl_of discount_rate)) \<and>
           is_inf (pw (fadd (Fin False 1) (dbl_of discount_rate)) (t + 1))))) \<longrightarrow>
      calculate_dcf pw sample cash_flows discount_rate num_simulations =
        Inr (np_mean (map (\<lambda>i. np_sum (map (\<lambda>t.
               fdiv (sample i t) (pw (fadd (Fin False 1) (dbl_of discount_rate)) (t + 1)))
               [0..<length cash_flows])) [0..<num_simulations])) \<and>
      (0 < num_simulations \<and>
       (\<exists>t<length cash_flows.
          is_zero (pw (fadd (Fin False 1) (dbl_of discount_rate)) (t + 1))) \<longrightarrow>
         (\<exists>v. calculate_dcf pw sample cash_flows discount_rate num_simulations = Inr v \<and>
              \<not> is_finite v)))"
proof (intro conjI impI)
  show "calculate_dcf pw sample [] discount_rate num_simulations =
     Inr (if num_simulations = 0 then NaN else Fin False 0)"
    by (rule calculate_dcf_empty)
next
  assume "calculate_dcf pw sample cash_flows discount_rate num_simulations = Inl e"
  from calculate_dcf_Inl [OF this]
  show "e = ValueError \<and> list_ex signbit (map (\<lambda>c. fmul (fl (5 / 100)) c) cash_flows) \<or>
      e = OverflowError \<and> \<not> is_np discount_rate \<and> cash_flows \<noteq> [] \<and> 0 < num_simulations"
    by blast
next
  assume a: "\<not> list_ex signbit (map (\<lambda>c. fmul (fl (5 / 100)) c) cash_flows) \<and>
    (is_np discount_rate \<or>
     (\<forall>t<length cash_flows.
        \<not> (is_finite (fadd (Fin False 1) (dbl_of discount_rate)) \<and>
           is_inf (pw (fadd (Fin False 1) (dbl_of discount_rate)) (t + 1)))))"
  then show "calculate_dcf pw sample cash_flows discount_rate num_simulations =
        Inr (np_mean (map (\<lambda>i. np_sum (map (\<lambda>t.
               fdiv (sample i t) (pw (fadd (Fin False 1) (dbl_of discount_rate)) (t + 1)))
               [0..<length cash_flows])) [0..<num_simulations]))"
    using calculate_dcf_formula [where pw = pw and rate = discount_rate and cf = cash_flows]
    by blast
  assume "0 < num_simulations \<and>
       (\<exists>t<length cash_flows.
          is_zero (pw (fadd (Fin False 1) (dbl_of discount_rate)) (t + 1)))"
  with a show "\<exists>v. calculate_dcf pw sample cash_flows discount_rate num_simulations = Inr v \<and>
              \<not> is_finite v"
    using calculate_dcf_zero_factor
      [where pw = pw and rate = discount_rate and cf = cash_flows and m = num_simulations]
    by blast
qed

theorem dcf_unguarded_witness:
  "calculate_dcf pow_rounded (at_mean []) [] (PyFloat (Fin True (1 / 2))) 2 = Inr (Fin False 0) \<and>
   calculate_dcf pow_rounded (at_mean []) [] (PyFloat (Fin True (1 / 2))) 0 = Inr NaN \<and>
   calculate_dcf pow_rounded (at_mean [Fin False 100]) [Fin False 100]
       (PyFloat (Fin True (1 / 2))) 1 = Inr (Fin False 200) \<and>
   calculate_dcf pow_rounded (at_mean [Fin False 100]) [Fin False 100]
       (PyFloat (Fin True 1)) 1 = Inr (Inf False) \<and>
   calculate_dcf pow_rounded (at_mean [Fin True 100]) [Fin True 100]
       (PyFloat (Fin True (1 / 2))) 1 = Inl ValueError"
proof -
  have acc: "\<not> list_ex signbit (map (\<lambda>c. fmul (fl (5 / 100)) c) [Fin False 100])"
    and rej: "list_ex signbit (map (\<lambda>c. fmul (fl (5 / 100)) c) [Fin True 100])"
    by (simp_all add: fl_eval)
  have half: "fadd (Fin False 1) (Fin True (1 / 2)) = Fin False (1 / 2)"
    and zero: "fadd (Fin False 1) (Fin True 1) = Fin False 0"
    by (simp_all add: fl_eval)
  have p1: "pow_rounded (Fin False (1 / 2)) (Suc 0) = Fin False (1 / 2)"
    and p0: "pow_rounded (Fin False 0) (Suc 0) = Fin False 0"
    by (simp_all add: fl_eval)
  have q: "fdiv (Fin False 100) (Fin False (1 / 2)) = Fin False 200"
      "fdiv (Fin False 100) (Fin False 0) = Inf False"
    and s: "np_sum [Fin False 200] = Fin False 200" "np_sum [Inf False] = Inf False"
    and m: "np_mean [Fin False 200] = Fin False 200" "np_mean [Inf False] = Inf False"
    by (simp_all add: fl_eval np_eval)
  have v: "calculate_dcf pow_rounded (at_mean [Fin True 100]) [Fin True 100]
       (PyFloat (Fin True (1 / 2))) 1 = Inl ValueError"
    using rej by (simp add: calculate_dcf_rows)
  from acc show ?thesis
    using dcf_unguarded [where pw = pow_rounded and sample = "at_mean []"
        and discount_rate = "PyFloat (Fin True (1 / 2))" and num_simulations = 2
        and cash_flows = "[Fin True 100]" and e = ValueError]
      dcf_unguarded [where pw = pow_rounded and sample = "at_mean []"
        and discount_rate = "PyFloat (Fin True (1 / 2))" and num_simulations = 0
        and cash_flows = "[]" and e = ValueError]
      dcf_unguarded [where pw = pow_rounded and sample = "at_mean [Fin False 100]"
        and discount_rate = "PyFloat (Fin True (1 / 2))" and num_simulations = 1
        and cash_flows = "[Fin False 100]" and e = ValueError]
      dcf_unguarded [where pw = pow_rounded and sample = "at_mean [Fin False 100]"
        and discount_rate = "PyFloat (Fin True 1)" and num_simulations = 1
        and cash_flows = "[Fin False 100]" and e = ValueError]
      v
    by (simp add: at_mean_def half zero p1 p0 q s m del: pow_rounded.simps fadd.simps fdiv.simps)
qed

end
